theory Spec2Isabelle
  imports Main
begin

section \<open>Values, exceptions and user hooks\<close>

text \<open>
  The module \<^verbatim>\<open>TrackedObject.py\<close> (Python 2: the metaclass is attached with
  \<^verbatim>\<open>__metaclass__\<close>) keeps, for every subclass of \<^verbatim>\<open>TrackedObject\<close>, a dictionary
  \<^verbatim>\<open>_instances\<close> from ids to weak references, and intercepts construction so that one
  id yields one object.

  Python values that occur as ids, arguments and keyword arguments.
\<close>

datatype pyval = PNone | PBool bool | PInt int | PStr string

text \<open>Truth value of \<^verbatim>\<open>if v:\<close>.\<close>

fun truthy :: "pyval \<Rightarrow> bool" where
  "truthy PNone = False"
| "truthy (PBool b) = b"
| "truthy (PInt i) = (i \<noteq> 0)"
| "truthy (PStr s) = (s \<noteq> [])"

text \<open>
  Dictionary keys are compared with \<^verbatim>\<open>==\<close> and \<^verbatim>\<open>hash\<close>: \<^verbatim>\<open>True\<close> and \<^verbatim>\<open>1\<close>
  (\<^verbatim>\<open>False\<close> and \<^verbatim>\<open>0\<close>) are one key.
\<close>

fun key_of :: "pyval \<Rightarrow> pyval" where
  "key_of (PBool b) = PInt (if b then 1 else 0)"
| "key_of v = v"

datatype exc =
    Exception string
  | TypeError string
  | KeyError pyval
  | IndexError
  | AttributeError string

type_synonym kwargs = "string \<rightharpoonup> pyval"

text \<open>The attributes user code stores on an instance (\<^verbatim>\<open>self.color = ...\<close>).\<close>

type_synonym attrs = "string \<rightharpoonup> pyval"

text \<open>
  A user method \<^verbatim>\<open>m(self, instance_id, *args, **kwargs)\<close>: it reads and writes the
  attributes of \<^verbatim>\<open>self\<close> and either returns or raises; when it raises, the attributes
  written so far stay. User methods are taken to be functions of their arguments and of
  \<^verbatim>\<open>self\<close>: they do not assign \<^verbatim>\<open>self._id\<close>, do not touch \<^verbatim>\<open>_instances\<close> and do
  not construct tracked objects themselves.
\<close>

type_synonym hook = "pyval \<Rightarrow> pyval list \<Rightarrow> kwargs \<Rightarrow> attrs \<Rightarrow> attrs \<times> exc option"

text \<open>An entry of a class body: a function, or a value that cannot be called.\<close>

datatype attr = Func hook | Val pyval

section \<open>Classes\<close>

text \<open>
  What \<^verbatim>\<open>C.__init__\<close> resolves to: the initialiser of \<^verbatim>\<open>TrackedObject\<close>, the one of
  \<^verbatim>\<open>object\<close>, or an entry of a class body.
\<close>

datatype init = TrackedObject_init | Object_init | User_init attr

text \<open>
  A class: \<^verbatim>\<open>object\<close>, or a class with its name, its bases, its dictionary and its
  \<^verbatim>\<open>__init__\<close>. The entry \<^verbatim>\<open>__init__\<close> of the dictionary is kept in the field
  \<open>cinit\<close>, apart from the other entries, which are functions and values of the class
  body. A class is identified by its name.
\<close>

datatype pyclass =
    PyObject
  | PyClass (cname: string) (cbases: "pyclass list") (cdict: "string \<rightharpoonup> attr") (cinit: init)

text \<open>
  Attribute lookup on a class: its own dictionary, then its bases from left to right
  (Python's resolution order when every class has one base).
\<close>

fun class_getattr :: "pyclass \<Rightarrow> string \<Rightarrow> attr option"
  and bases_getattr :: "pyclass list \<Rightarrow> string \<Rightarrow> attr option" where
  "class_getattr PyObject name = None"
| "class_getattr (PyClass n bs d i) name =
     (case d name of Some a \<Rightarrow> Some a | None \<Rightarrow> bases_getattr bs name)"
| "bases_getattr [] name = None"
| "bases_getattr (b # bs) name =
     (case class_getattr b name of Some a \<Rightarrow> Some a | None \<Rightarrow> bases_getattr bs name)"

text \<open>\<^verbatim>\<open>C.__init__\<close>.\<close>

fun class_init :: "pyclass \<Rightarrow> init" where
  "class_init PyObject = Object_init"
| "class_init (PyClass n bs d i) = i"

text \<open>
  \<^verbatim>\<open>class TrackedObject(object)\<close>: its body defines \<^verbatim>\<open>__init__\<close>, the property
  \<^verbatim>\<open>id\<close> and \<^verbatim>\<open>__new__\<close>; the last two are \<open>to_new\<close> and \<open>getattr_id\<close> below.
\<close>

definition TrackedObject :: pyclass where
  "TrackedObject = PyClass ''TrackedObject'' [PyObject] Map.empty TrackedObject_init"

subsection \<open>\<^verbatim>\<open>TrackedType.__new__\<close>: the checks made when a class is defined\<close>

text \<open>
  \<^verbatim>\<open>type.__new__(mcs, nom, bases, dct)\<close> for a body without the checks (\<^verbatim>\<open>object\<close>
  among the bases): \<^verbatim>\<open>__init__\<close> is the body's, or else inherited.
\<close>

definition type_new :: "string \<Rightarrow> pyclass list \<Rightarrow> (string \<rightharpoonup> attr) \<Rightarrow> pyclass" where
  "type_new nom bases dct =
     PyClass nom bases (dct(''__init__'' := None))
       (case dct ''__init__'' of
          Some a \<Rightarrow> User_init a
        | None \<Rightarrow> (case bases of [] \<Rightarrow> Object_init | b # _ \<Rightarrow> class_init b))"

definition tt_new :: "string \<Rightarrow> pyclass list \<Rightarrow> (string \<rightharpoonup> attr) \<Rightarrow> exc + pyclass" where
  "tt_new nom bases dct =
     (if PyObject \<notin> set bases then
        if dct ''_load'' = None then
          Inl (Exception ''Subclasses of TrackedObject must implement a _load method'')
        else if dct ''__new__'' \<noteq> None then
          Inl (Exception ''Subclasses of TrackedObject are not allowed to override __new__'')
        else if dct ''id'' \<noteq> None then
          Inl (Exception ''Subclasses of TrackedObject are not allowed to override id'')
        else
          let dct1 = (if dct ''reload'' = None then dct(''reload'' := dct ''_load'') else dct);
              dct2 = (if dct1 ''__init__'' \<noteq> None
                      then dct1(''_tracked_init'' := dct1 ''__init__'') else dct1)
          in (case bases of
                [] \<Rightarrow> Inl IndexError
              | b # _ \<Rightarrow> Inr (PyClass nom bases (dct2(''__init__'' := None)) (class_init b)))
      else Inr (type_new nom bases dct))"

section \<open>Instances, the heap and the registries\<close>

text \<open>
  An instance: its class, its attribute \<^verbatim>\<open>_id\<close> (\<open>None\<close> while the attribute does not
  exist) and the attributes user code has written.
\<close>

record pyinstance =
  inst_class :: pyclass
  inst_id :: "pyval option"
  inst_attrs :: attrs

text \<open>A call of a user method: the attribute name it was found under, \<^verbatim>\<open>self\<close>, and the
  arguments it received.\<close>

datatype event = Call (ev_name: string) (ev_self: nat) (ev_id: pyval)
  (ev_args: "pyval list") (ev_kwargs: kwargs)

text \<open>
  The world: the live objects by address (an object that has been collected has no entry),
  the next address (addresses are never used twice, as a dead weak reference never comes
  back to life), \<^verbatim>\<open>cls._instances\<close> for every class that has one, by class name, with
  the address a weak reference points to, and the calls of user methods so far.
\<close>

record world =
  heap :: "nat \<rightharpoonup> pyinstance"
  next_addr :: nat
  instances :: "string \<rightharpoonup> (pyval \<rightharpoonup> nat)"
  calls :: "event list"

definition class_name :: "pyclass \<Rightarrow> string" where
  "class_name c = (case c of PyObject \<Rightarrow> ''object'' | PyClass n bs d i \<Rightarrow> n)"

text \<open>\<^verbatim>\<open>TrackedType.__init__\<close>: a class without \<^verbatim>\<open>object\<close> among its bases gets an
  empty \<^verbatim>\<open>_instances\<close> of its own.\<close>

definition tt_init :: "pyclass \<Rightarrow> pyclass list \<Rightarrow> world \<Rightarrow> world" where
  "tt_init cls bases s =
     (if PyObject \<notin> set bases
      then s\<lparr>instances := (instances s)(class_name cls \<mapsto> Map.empty)\<rparr>
      else s)"

text \<open>The class statement \<^verbatim>\<open>class nom(bases): dct\<close> under the metaclass.\<close>

definition define_class ::
  "string \<Rightarrow> pyclass list \<Rightarrow> (string \<rightharpoonup> attr) \<Rightarrow> world \<Rightarrow> (exc + pyclass) \<times> world" where
  "define_class nom bases dct s =
     (case tt_new nom bases dct of
        Inl e \<Rightarrow> (Inl e, s)
      | Inr cls \<Rightarrow> (Inr cls, tt_init cls bases s))"

text \<open>\<^verbatim>\<open>TrackedType.add\<close>, \<^verbatim>\<open>clean\<close> and \<^verbatim>\<open>get\<close>.\<close>

definition tt_add :: "pyclass \<Rightarrow> pyval \<Rightarrow> nat \<Rightarrow> world \<Rightarrow> exc option \<times> world" where
  "tt_add cls instance_id inst s =
     (case instances s (class_name cls) of
        None \<Rightarrow> (Some (AttributeError ''_instances''), s)
      | Some reg \<Rightarrow>
          (None, s\<lparr>instances := (instances s)(class_name cls \<mapsto> reg(key_of instance_id \<mapsto> inst))\<rparr>))"

definition tt_clean :: "pyclass \<Rightarrow> pyval \<Rightarrow> world \<Rightarrow> exc option \<times> world" where
  "tt_clean cls instance_id s =
     (case instances s (class_name cls) of
        None \<Rightarrow> (Some (AttributeError ''_instances''), s)
      | Some reg \<Rightarrow>
          (case reg (key_of instance_id) of
             None \<Rightarrow> (Some (KeyError instance_id), s)
           | Some _ \<Rightarrow>
               (None, s\<lparr>instances :=
                  (instances s)(class_name cls \<mapsto> reg(key_of instance_id := None))\<rparr>)))"

text \<open>
  \<^verbatim>\<open>get\<close>: a missing key gives \<^verbatim>\<open>None\<close> (not callable); a weak reference is
  called and gives its object, or \<^verbatim>\<open>None\<close> once the object has been collected.
\<close>

definition tt_get :: "pyclass \<Rightarrow> pyval \<Rightarrow> world \<Rightarrow> exc + nat option" where
  "tt_get cls instance_id s =
     (case instances s (class_name cls) of
        None \<Rightarrow> Inl (AttributeError ''_instances'')
      | Some reg \<Rightarrow>
          (case reg (key_of instance_id) of
             None \<Rightarrow> Inr None
           | Some a \<Rightarrow> (case heap s a of None \<Rightarrow> Inr None | Some _ \<Rightarrow> Inr (Some a))))"

text \<open>The collector reclaims an object no strong reference holds any more.\<close>

definition collect :: "nat \<Rightarrow> world \<Rightarrow> world" where
  "collect a s = s\<lparr>heap := (heap s)(a := None)\<rparr>"

text \<open>\<^verbatim>\<open>getattr(obj, "_id", None)\<close>.\<close>

definition getattr_id :: "world \<Rightarrow> nat \<Rightarrow> pyval" where
  "getattr_id s a =
     (case heap s a of
        None \<Rightarrow> PNone
      | Some obj \<Rightarrow> (case inst_id obj of None \<Rightarrow> PNone | Some v \<Rightarrow> v))"

text \<open>\<^verbatim>\<open>getattr(self, name, None)\<close> for a method name: found on the class of \<^verbatim>\<open>self\<close>.\<close>

definition getattr_method :: "world \<Rightarrow> nat \<Rightarrow> string \<Rightarrow> attr option" where
  "getattr_method s a name =
     (case heap s a of None \<Rightarrow> None | Some obj \<Rightarrow> class_getattr (inst_class obj) name)"

text \<open>
  Calling what an attribute holds, on \<^verbatim>\<open>self\<close> at address \<open>a\<close> (alive: the caller
  holds it): a value is not callable; a function runs on the attributes of \<^verbatim>\<open>self\<close>,
  and the call is recorded.
\<close>

definition call_attr ::
  "string \<Rightarrow> attr \<Rightarrow> nat \<Rightarrow> pyval \<Rightarrow> pyval list \<Rightarrow> kwargs \<Rightarrow> world \<Rightarrow> exc option \<times> world" where
  "call_attr name f a instance_id args kw s =
     (case f of
        Val v \<Rightarrow> (Some (TypeError ''object is not callable''), s)
      | Func h \<Rightarrow>
          (case heap s a of
             None \<Rightarrow> (None, s)
           | Some obj \<Rightarrow>
               (let (attrs', r) = h instance_id args kw (inst_attrs obj)
                in (r, s\<lparr>heap := (heap s)(a \<mapsto> obj\<lparr>inst_attrs := attrs'\<rparr>),
                         calls := calls s @ [Call name a instance_id args kw]\<rparr>))))"

section \<open>Construction\<close>

text \<open>
  \<^verbatim>\<open>TrackedObject.__init__(self, instance_id, *args, **kwargs)\<close>: nothing when
  \<^verbatim>\<open>_id\<close> is there and is not \<^verbatim>\<open>None\<close>; else it records the id, calls
  \<^verbatim>\<open>_tracked_init\<close> when that is callable, and calls \<^verbatim>\<open>_load\<close> (a missing
  \<^verbatim>\<open>_load\<close> is \<^verbatim>\<open>None\<close>, which cannot be called).
\<close>

definition set_id :: "nat \<Rightarrow> pyval \<Rightarrow> world \<Rightarrow> world" where
  "set_id a instance_id s =
     s\<lparr>heap := (heap s)(a := map_option (\<lambda>obj. obj\<lparr>inst_id := Some instance_id\<rparr>) (heap s a))\<rparr>"

definition to_init :: "nat \<Rightarrow> pyval \<Rightarrow> pyval list \<Rightarrow> kwargs \<Rightarrow> world \<Rightarrow> exc option \<times> world" where
  "to_init self instance_id args kw s =
     (if getattr_id s self \<noteq> PNone then (None, s)
      else
        let s1 = set_id self instance_id s;
            (r, s2) = (case getattr_method s1 self ''_tracked_init'' of
                         Some (Func h) \<Rightarrow>
                           call_attr ''_tracked_init'' (Func h) self instance_id args kw s1
                       | _ \<Rightarrow> (None, s1))
        in (case r of
              Some e \<Rightarrow> (Some e, s2)
            | None \<Rightarrow>
                (case getattr_method s2 self ''_load'' of
                   None \<Rightarrow> (Some (TypeError ''NoneType object is not callable''), s2)
                 | Some f \<Rightarrow> call_attr ''_load'' f self instance_id args kw s2)))"

text \<open>
  \<^verbatim>\<open>TrackedObject.__new__(cls, instance_id, *args, **kwargs)\<close>. The lock is taken and
  released around the lookup and the insertion; calls are modelled one at a time, so it does
  not appear. \<^verbatim>\<open>object.__new__(cls)\<close> makes an instance of \<open>cls\<close> without attributes
  at the next address.
\<close>

definition object_new :: "pyclass \<Rightarrow> world \<Rightarrow> nat \<times> world" where
  "object_new cls s =
     (next_addr s,
      s\<lparr>heap := (heap s)(next_addr s \<mapsto> \<lparr>inst_class = cls, inst_id = None, inst_attrs = Map.empty\<rparr>),
        next_addr := Suc (next_addr s)\<rparr>)"

definition kwargs_get :: "kwargs \<Rightarrow> string \<Rightarrow> pyval" where
  "kwargs_get kw k = (case kw k of None \<Rightarrow> PNone | Some v \<Rightarrow> v)"

definition to_new :: "pyclass \<Rightarrow> pyval \<Rightarrow> pyval list \<Rightarrow> kwargs \<Rightarrow> world \<Rightarrow> (exc + nat) \<times> world" where
  "to_new cls instance_id args kw s =
     (case tt_get cls instance_id s of
        Inl e \<Rightarrow> (Inl e, s)
      | Inr (Some inst) \<Rightarrow>
          if truthy (kwargs_get kw ''force_reload'') then
            (case getattr_method s inst ''reload'' of
               None \<Rightarrow> (Inl (AttributeError ''reload''), s)
             | Some f \<Rightarrow>
                 (case call_attr ''reload'' f inst instance_id args (kw(''force_reload'' := None)) s of
                    (Some e, s1) \<Rightarrow> (Inl e, s1)
                  | (None, s1) \<Rightarrow> (Inr inst, s1)))
          else (Inr inst, s)
      | Inr None \<Rightarrow>
          (let (inst, s1) = object_new cls s
           in (case tt_add cls instance_id inst s1 of
                 (Some e, s2) \<Rightarrow> (Inl e, s2)
               | (None, s2) \<Rightarrow> (Inr inst, s2))))"

text \<open>
  \<^verbatim>\<open>obj.__init__(instance_id, *args, **kw)\<close>: the \<^verbatim>\<open>__init__\<close> of the class of
  \<^verbatim>\<open>obj\<close>. The one of \<^verbatim>\<open>object\<close> does nothing.
\<close>

definition obj_init :: "nat \<Rightarrow> pyval \<Rightarrow> pyval list \<Rightarrow> kwargs \<Rightarrow> world \<Rightarrow> exc option \<times> world" where
  "obj_init obj instance_id args kw s =
     (case heap s obj of
        None \<Rightarrow> (None, s)
      | Some ob \<Rightarrow>
          (case class_init (inst_class ob) of
             TrackedObject_init \<Rightarrow> to_init obj instance_id args kw s
           | Object_init \<Rightarrow> (None, s)
           | User_init f \<Rightarrow> call_attr ''__init__'' f obj instance_id args kw s))"

text \<open>
  \<^verbatim>\<open>TrackedType.__call__(cls, instance_id, *args, **kw)\<close>, the construction call
  \<^verbatim>\<open>cls(instance_id, *args, **kw)\<close>. \<^verbatim>\<open>cls.__new__\<close> is \<^verbatim>\<open>TrackedObject.__new__\<close>
  (a subclass may not override it) and receives a copy of \<^verbatim>\<open>kw\<close>. When
  \<^verbatim>\<open>__init__\<close> raises, \<^verbatim>\<open>clean\<close> runs and the exception is raised again, unless
  \<^verbatim>\<open>clean\<close> raises itself.
\<close>

definition tt_call :: "pyclass \<Rightarrow> pyval \<Rightarrow> pyval list \<Rightarrow> kwargs \<Rightarrow> world \<Rightarrow> (exc + nat) \<times> world" where
  "tt_call cls instance_id args kw s =
     (case to_new cls instance_id args kw s of
        (Inl e, s1) \<Rightarrow> (Inl e, s1)
      | (Inr obj, s1) \<Rightarrow>
          (let kw' = kw(''force_reload'' := None)
           in if getattr_id s1 obj = PNone then
                (case obj_init obj instance_id args kw' s1 of
                   (Some e, s2) \<Rightarrow>
                     (case tt_clean cls instance_id s2 of
                        (Some e', s3) \<Rightarrow> (Inl e', s3)
                      | (None, s3) \<Rightarrow> (Inl e, s3))
                 | (None, s2) \<Rightarrow> (Inr obj, s2))
              else (Inr obj, s1)))"

text \<open>The initial world: no object, no class.\<close>

definition world0 :: world where
  "world0 = \<lparr>heap = Map.empty, next_addr = 0, instances = Map.empty, calls = []\<rparr>"

section \<open>Notions used in the statements\<close>

text \<open>The call asks for a reload: \<^verbatim>\<open>kwargs.get("force_reload")\<close> is true.\<close>

definition forced :: "kwargs \<Rightarrow> bool" where
  "forced kw = truthy (kwargs_get kw ''force_reload'')"

text \<open>
  A trackable class in a world: its \<^verbatim>\<open>__init__\<close> is the one of \<^verbatim>\<open>TrackedObject\<close>
  (what \<open>tt_new\<close> stores for a subclass of \<^verbatim>\<open>TrackedObject\<close>), it has its
  \<^verbatim>\<open>_instances\<close>, and the objects registered there are its own instances (\<open>tt_add\<close>
  is only called on an object made by \<open>object_new\<close> for the class).
\<close>

definition tracked_class :: "world \<Rightarrow> pyclass \<Rightarrow> bool" where
  "tracked_class s C \<longleftrightarrow>
     class_init C = TrackedObject_init \<and>
     (case instances s (class_name C) of
        None \<Rightarrow> False
      | Some reg \<Rightarrow> \<forall>k a ob. reg k = Some a \<longrightarrow> heap s a = Some ob \<longrightarrow> inst_class ob = C)"

text \<open>
  The attributes of a new instance of \<open>C\<close> after the pre-initialisation hook
  \<^verbatim>\<open>_tracked_init\<close> (the \<^verbatim>\<open>__init__\<close> of the class body), and whether it raised.
\<close>

definition pre_init :: "pyclass \<Rightarrow> pyval \<Rightarrow> pyval list \<Rightarrow> kwargs \<Rightarrow> attrs \<times> exc option" where
  "pre_init C instance_id args kw =
     (case class_getattr C ''_tracked_init'' of
        Some (Func h) \<Rightarrow> h instance_id args kw Map.empty
      | _ \<Rightarrow> (Map.empty, None))"

text \<open>The calls of \<^verbatim>\<open>_load\<close> on the object at \<open>a\<close> among recorded calls.\<close>

definition loads_of :: "nat \<Rightarrow> event list \<Rightarrow> event list" where
  "loads_of a evs = filter (\<lambda>ev. ev_name ev = ''_load'' \<and> ev_self ev = a) evs"

subsection \<open>The example of the specification\<close>

text \<open>
  \<^verbatim>\<open>class Widget(TrackedObject)\<close> with \<^verbatim>\<open>_load\<close> setting \<^verbatim>\<open>self.color = "red"\<close>;
  \<open>widget_body\<close> is the class body, \<open>Widget\<close> the class the metaclass makes of it.
\<close>

definition widget_load :: hook where
  "widget_load = (\<lambda>instance_id args kw at. (at(''color'' \<mapsto> PStr ''red''), None))"

definition widget_body :: "string \<rightharpoonup> attr" where
  "widget_body = [''_load'' \<mapsto> Func widget_load]"

definition Widget :: pyclass where
  "Widget = PyClass ''Widget'' [TrackedObject]
              [''_load'' \<mapsto> Func widget_load, ''reload'' \<mapsto> Func widget_load]
              TrackedObject_init"

text \<open>The world after the class statement of \<open>Widget\<close>.\<close>

definition widget_world :: world where
  "widget_world = \<lparr>heap = Map.empty, next_addr = 0,
                    instances = [''Widget'' \<mapsto> Map.empty], calls = []\<rparr>"

text \<open>
  \<^verbatim>\<open>class Journal(TrackedObject)\<close>: \<^verbatim>\<open>_load\<close> opens the journal and raises when it
  is open already; the body has no \<^verbatim>\<open>reload\<close>, so the metaclass makes it \<^verbatim>\<open>_load\<close>.
\<close>

definition journal_load :: hook where
  "journal_load = (\<lambda>instance_id args kw at.
     if at ''open'' = None then (at(''open'' \<mapsto> PBool True), None)
     else (at(''dirty'' \<mapsto> PBool True), Some (Exception ''already open'')))"

definition journal_body :: "string \<rightharpoonup> attr" where
  "journal_body = [''_load'' \<mapsto> Func journal_load]"

definition Journal :: pyclass where
  "Journal = PyClass ''Journal'' [TrackedObject]
              [''_load'' \<mapsto> Func journal_load, ''reload'' \<mapsto> Func journal_load]
              TrackedObject_init"

text \<open>The world after \<^verbatim>\<open>Journal(7)\<close>, the first object of the program.\<close>

definition journal_live :: world where
  "journal_live =
     \<lparr>heap = [0 \<mapsto> \<lparr>inst_class = Journal, inst_id = Some (PInt 7),
                       inst_attrs = [''open'' \<mapsto> PBool True]\<rparr>],
      next_addr = 1,
      instances = [''Journal'' \<mapsto> [PInt 7 \<mapsto> 0]],
      calls = [Call ''_load'' 0 (PInt 7) [] Map.empty]\<rparr>"

text \<open>
  \<^verbatim>\<open>class Record(TrackedObject)\<close>: \<^verbatim>\<open>_load(self, instance_id, source=None)\<close> raises
  unless a source is given.
\<close>

definition record_load :: hook where
  "record_load = (\<lambda>instance_id args kw at.
     case kw ''source'' of
       None \<Rightarrow> (at, Some (Exception ''no source''))
     | Some v \<Rightarrow> (at(''source'' \<mapsto> v), None))"

definition Record :: pyclass where
  "Record = PyClass ''Record'' [TrackedObject]
              [''_load'' \<mapsto> Func record_load, ''reload'' \<mapsto> Func record_load]
              TrackedObject_init"

definition record_world :: world where
  "record_world = \<lparr>heap = Map.empty, next_addr = 0,
                    instances = [''Record'' \<mapsto> Map.empty], calls = []\<rparr>"

text \<open>The world after \<^verbatim>\<open>a = Widget(1)\<close> in \<open>widget_world\<close>.\<close>

definition widget_live :: world where
  "widget_live =
     \<lparr>heap = [0 \<mapsto> \<lparr>inst_class = Widget, inst_id = Some (PInt 1),
                       inst_attrs = [''color'' \<mapsto> PStr ''red'']\<rparr>],
      next_addr = 1,
      instances = [''Widget'' \<mapsto> [PInt 1 \<mapsto> 0]],
      calls = [Call ''_load'' 0 (PInt 1) [] Map.empty]\<rparr>"

text \<open>The world after \<^verbatim>\<open>Widget(None)\<close> in \<open>widget_world\<close>.\<close>

definition widget_none :: world where
  "widget_none =
     \<lparr>heap = [0 \<mapsto> \<lparr>inst_class = Widget, inst_id = Some PNone,
                       inst_attrs = [''color'' \<mapsto> PStr ''red'']\<rparr>],
      next_addr = 1,
      instances = [''Widget'' \<mapsto> [PNone \<mapsto> 0]],
      calls = [Call ''_load'' 0 PNone [] Map.empty]\<rparr>"

text \<open>The world after \<^verbatim>\<open>a = Widget(1); a.color = "blue"\<close>.\<close>

definition widget_blue :: world where
  "widget_blue =
     \<lparr>heap = [0 \<mapsto> \<lparr>inst_class = Widget, inst_id = Some (PInt 1),
                       inst_attrs = [''color'' \<mapsto> PStr ''blue'']\<rparr>],
      next_addr = 1,
      instances = [''Widget'' \<mapsto> [PInt 1 \<mapsto> 0]],
      calls = [Call ''_load'' 0 (PInt 1) [] Map.empty]\<rparr>"

section \<open>What a call leaves unchanged\<close>


lemma call_attr_events:
  assumes "call_attr n f a X args kw s = (r, s')"
  shows "\<exists>evs. calls s' = calls s @ evs \<and> set evs \<subseteq> {Call n a X args kw}"
  using assms
  by (auto simp: call_attr_def split: attr.splits option.splits prod.splits)


lemma set_id_frame:
  shows "instances (set_id a X s) = instances s" and "next_addr (set_id a X s) = next_addr s"
    and "getattr_method (set_id a X s) b m = getattr_method s b m"
    and "dom (heap (set_id a X s)) = dom (heap s)"
    and "map_option inst_class (heap (set_id a X s) b) = map_option inst_class (heap s b)"
    and "b \<noteq> a \<Longrightarrow> heap (set_id a X s) b = heap s b"
    and "calls (set_id a X s) = calls s"
    and "heap s a \<noteq> None \<Longrightarrow> getattr_id (set_id a X s) a = X"
  by (cases "heap s a"; auto simp: set_id_def getattr_method_def getattr_id_def split: option.splits)+


lemma to_init_done:
  assumes "getattr_id s a \<noteq> PNone"
  shows "to_init a X args kw s = (None, s)"
  using assms by (simp add: to_init_def)


lemma to_init_events:
  assumes "to_init a X args kw s = (r, s')"
  shows "\<exists>evs. calls s' = calls s @ evs \<and>
           set evs \<subseteq> {Call ''_tracked_init'' a X args kw, Call ''_load'' a X args kw}"
  using assms
  by (auto simp: to_init_def set_id_def Let_def getattr_id_def getattr_method_def call_attr_def
      split: attr.splits option.splits prod.splits if_splits)

section \<open>The two paths of a construction call\<close>






lemma tt_clean_frame:
  assumes "tt_clean C X s = (r, s')"
  shows "heap s' = heap s" and "next_addr s' = next_addr s" and "calls s' = calls s"
  using assms by (auto simp: tt_clean_def split: option.splits)








lemma obj_init_events:
  assumes "obj_init a X args kw s = (r, s')"
  shows "\<exists>evs. calls s' = calls s @ evs \<and>
           (\<forall>ev \<in> set evs. ev_self ev = a \<and> ev_id ev = X \<and> ev_args ev = args \<and> ev_kwargs ev = kw \<and>
              ev_name ev \<noteq> ''reload'')"
proof (cases "heap s a")
  case None
  then show ?thesis using assms by (simp add: obj_init_def)
next
  case (Some ob)
  show ?thesis
  proof (cases "class_init (inst_class ob)")
    case TrackedObject_init
    then have "to_init a X args kw s = (r, s')"
      using assms Some by (simp add: obj_init_def)
    from to_init_events[OF this] show ?thesis by fastforce
  next
    case Object_init
    then show ?thesis using assms Some by (simp add: obj_init_def)
  next
    case (User_init f)
    then have "call_attr ''__init__'' f a X args kw s = (r, s')"
      using assms Some by (simp add: obj_init_def)
    from call_attr_events[OF this] show ?thesis by fastforce
  qed
qed

lemma to_new_events:
  assumes "to_new C X args kw s = (r, s')"
  shows "\<exists>evs. calls s' = calls s @ evs \<and>
           (\<forall>ev \<in> set evs. ev_id ev = X \<and> ev_args ev = args \<and>
              ev_kwargs ev = kw(''force_reload'' := None))"
  using assms
  by (auto simp: to_new_def call_attr_def object_new_def tt_add_def Let_def
      split: sum.splits option.splits if_splits prod.splits attr.splits)

lemma tt_call_events:
  assumes "tt_call C X args kw s = (r, s')"
  shows "\<exists>evs. calls s' = calls s @ evs \<and>
           (\<forall>ev \<in> set evs. ev_id ev = X \<and> ev_args ev = args \<and>
              ev_kwargs ev = kw(''force_reload'' := None))"
proof -
  obtain r1 s1 where n: "to_new C X args kw s = (r1, s1)" by (cases "to_new C X args kw s")
  from to_new_events[OF n] obtain evs1 where
    e1: "calls s1 = calls s @ evs1"
      "\<forall>ev \<in> set evs1. ev_id ev = X \<and> ev_args ev = args \<and> ev_kwargs ev = kw(''force_reload'' := None)"
    by blast
  show ?thesis
  proof (cases r1)
    case (Inl e)
    then show ?thesis using assms n e1 by (auto simp: tt_call_def)
  next
    case (Inr b)
    show ?thesis
    proof (cases "getattr_id s1 b = PNone")
      case False
      then show ?thesis using assms n e1 Inr by (auto simp: tt_call_def)
    next
      case True
      obtain r2 s2 where i: "obj_init b X args (kw(''force_reload'' := None)) s1 = (r2, s2)"
        by (cases "obj_init b X args (kw(''force_reload'' := None)) s1")
      from obj_init_events[OF i] obtain evs2 where
        e2: "calls s2 = calls s1 @ evs2"
          "\<forall>ev \<in> set evs2. ev_id ev = X \<and> ev_args ev = args \<and> ev_kwargs ev = kw(''force_reload'' := None)"
        by blast
      have c: "calls s' = calls s2"
        using assms n Inr True i
        by (auto simp: tt_call_def Let_def tt_clean_def split: option.splits prod.splits)
      show ?thesis
        using c e1 e2 by (intro exI[of _ "evs1 @ evs2"]) auto
    qed
  qed
qed

section \<open>Evaluating the example\<close>

lemmas model_defs =
  tt_call_def to_new_def tt_get_def tt_add_def tt_clean_def object_new_def obj_init_def
  to_init_def set_id_def getattr_id_def getattr_method_def call_attr_def kwargs_get_def
  class_name_def forced_def tracked_class_def pre_init_def loads_of_def collect_def
  tt_new_def type_new_def tt_init_def define_class_def TrackedObject_def Let_def

lemmas widget_defs =
  Widget_def widget_body_def widget_load_def widget_world_def widget_live_def widget_none_def widget_blue_def

lemmas journal_defs =
  Journal_def journal_body_def journal_load_def journal_live_def

lemmas record_defs =
  Record_def record_load_def record_world_def

lemma widget_defined:
  "define_class ''Widget'' [TrackedObject] widget_body world0 = (Inr Widget, widget_world)"
  by (simp add: model_defs widget_defs world0_def fun_upd_twist)


lemma widget_none_first:
  "tt_call Widget PNone [] Map.empty widget_world = (Inr 0, widget_none)"
  by (simp add: model_defs widget_defs)

lemma journal_defined:
  "define_class ''Journal'' [TrackedObject] journal_body world0 =
     (Inr Journal, \<lparr>heap = Map.empty, next_addr = 0,
                    instances = [''Journal'' \<mapsto> Map.empty], calls = []\<rparr>)"
  by (simp add: model_defs journal_defs world0_def fun_upd_twist)

lemma journal_first:
  "tt_call Journal (PInt 7) [] Map.empty
     \<lparr>heap = Map.empty, next_addr = 0, instances = [''Journal'' \<mapsto> Map.empty], calls = []\<rparr> =
   (Inr 0, journal_live)"
  by (simp add: model_defs journal_defs)

lemma record_defined:
  "define_class ''Record'' [TrackedObject] [''_load'' \<mapsto> Func record_load] world0 =
     (Inr Record, record_world)"
  by (simp add: model_defs record_defs world0_def fun_upd_twist)

section \<open>The claims\<close>

text \<open>
  C9. In a construction call \<^verbatim>\<open>cls(instance_id, *args, **kw)\<close>, every user method
  that runs (\<^verbatim>\<open>reload\<close>, the pre-initialisation hook, \<^verbatim>\<open>_load\<close>) receives the id,
  the positional arguments as given and the keyword arguments without
  \<^verbatim>\<open>force_reload\<close>, whatever the class, the value of the flag and the path taken.
\<close>

theorem force_reload_not_forwarded:
  assumes "tt_call C X args kw s = (r, s')"
  shows "\<exists>evs. calls s' = calls s @ evs \<and>
           (\<forall>ev \<in> set evs. ev_id ev = X \<and> ev_args ev = args \<and>
              ev_kwargs ev = kw(''force_reload'' := None) \<and>
              ''force_reload'' \<notin> dom (ev_kwargs ev))"
proof -
  from tt_call_events[OF assms] obtain evs where
    "calls s' = calls s @ evs"
    "\<forall>ev \<in> set evs. ev_id ev = X \<and> ev_args ev = args \<and> ev_kwargs ev = kw(''force_reload'' := None)"
    by blast
  then show ?thesis by (intro exI[of _ evs]) auto
qed

theorem force_reload_not_forwarded_witness:
  "tt_call Widget (PInt 1) [PStr ''fast''] [''force_reload'' \<mapsto> PBool True, ''depth'' \<mapsto> PInt 2]
     widget_live =
   (Inr 0, widget_live\<lparr>calls := calls widget_live @
      [Call ''reload'' 0 (PInt 1) [PStr ''fast''] [''depth'' \<mapsto> PInt 2]]\<rparr>) \<and>
   (\<exists>evs. calls (widget_live\<lparr>calls := calls widget_live @
      [Call ''reload'' 0 (PInt 1) [PStr ''fast''] [''depth'' \<mapsto> PInt 2]]\<rparr>) = calls widget_live @ evs \<and>
      (\<forall>ev \<in> set evs. ev_id ev = PInt 1 \<and> ev_args ev = [PStr ''fast''] \<and>
              ev_kwargs ev = [''force_reload'' \<mapsto> PBool True, ''depth'' \<mapsto> PInt 2](''force_reload'' := None) \<and>
              ''force_reload'' \<notin> dom (ev_kwargs ev)))"
proof -
  have e: "tt_call Widget (PInt 1) [PStr ''fast''] [''force_reload'' \<mapsto> PBool True, ''depth'' \<mapsto> PInt 2]
     widget_live =
   (Inr 0, widget_live\<lparr>calls := calls widget_live @
      [Call ''reload'' 0 (PInt 1) [PStr ''fast''] [''depth'' \<mapsto> PInt 2]]\<rparr>)"
    by (simp add: model_defs widget_defs fun_upd_twist)
  from force_reload_not_forwarded[OF e] e show ?thesis by blast
qed




lemma tt_new_keeps_load:
  assumes "tt_new nom bases dct = Inr C" and "PyObject \<notin> set bases"
  shows "class_getattr C ''_load'' = dct ''_load''" and "dct ''_load'' \<noteq> None"
    and "class_init C = (case bases of [] \<Rightarrow> Object_init | b # _ \<Rightarrow> class_init b)"
    and "class_getattr C ''reload'' = (case dct ''reload'' of None \<Rightarrow> dct ''_load'' | Some f \<Rightarrow> Some f)"
    and "class_name C = nom"
  using assms
  by (auto simp: tt_new_def Let_def class_name_def split: if_splits list.splits option.splits)

lemma define_class_tracked:
  assumes "define_class nom (b # bases) dct s = (Inr C, s')"
    and "PyObject \<notin> set (b # bases)" and "class_init b = TrackedObject_init"
  shows "tracked_class s' C"
proof -
  from assms(1) have n: "tt_new nom (b # bases) dct = Inr C" and s': "s' = tt_init C (b # bases) s"
    by (auto simp: define_class_def split: sum.splits)
  have i: "class_init C = TrackedObject_init"
    using tt_new_keeps_load(3)[OF n assms(2)] assms(3) by simp
  have "instances s' (class_name C) = Some Map.empty"
    using s' assms(2) by (simp add: tt_init_def)
  then show ?thesis
    using i by (simp add: tracked_class_def)
qed
































end
